theory Spec2Isabelle
  imports Complex_Main
begin

section \<open>The mobile-menu component (addon/components/mobile-menu.js)\<close>

text \<open>
  JavaScript numbers are modelled as \<^typ>\<open>real\<close>. Comparisons, negation, minima, maxima
  and halving are exact on doubles; sums, differences, products and quotients are taken
  here without the rounding of double arithmetic, so a result below that names a value
  names the expression the code evaluates. No result below equates or bounds a value
  written by the open animation: its last step \<open>startPos + diff * 1\<close> can miss the width
  by one unit in the last place in double arithmetic. The one place where a JavaScript
  number can leave the finite numbers from finite inputs is the division in
  \<open>relativePosition\<close>; its result type \<open>jsnum\<close> keeps \<open>NaN\<close> and the infinities
  apart from the finite quotients.
\<close>

subsection \<open>Data\<close>

text \<open>
  The arguments of the component that the handlers read, together with the three things the
  component imports and reads from its environment: the FastBoot flag, the viewport width
  returned by \<open>getWindowWidth()\<close>, and the coordinate normaliser used when \<open>embed\<close> is
  set (\<open>normalizeCoordinates(e, this.element)\<close>, taken as a parameter).
\<close>

record config =
  type :: string
  width :: real
  maxWidth :: real
  triggerVelocity :: real
  embed :: bool
  isFastBoot :: bool
  getWindowWidth :: real

text \<open>
  The part \<open>e.current\<close> of a pan event that the handlers destructure: \<open>distanceX\<close>,
  \<open>velocityX\<close> and \<open>x\<close> (called \<open>pointerX\<close> here).
\<close>

record pan_event =
  distanceX :: real
  velocityX :: real
  pointerX :: real

text \<open>
  A running instance of the \<open>open\<close> task holds the two constants its generator body
  captured before the \<open>yield\<close>; a running instance of \<open>close\<close> holds one.
\<close>

record open_instance =
  open_startPos :: real
  open_diff :: real

record close_instance =
  close_startPos :: real

text \<open>
  The mutable properties \<open>isDragging\<close>, \<open>position\<close> and \<open>dxCorrection\<close>, the state of
  the two tasks (the running instance, if any, and how often the task has been performed),
  and how often each of the hooks \<open>onOpen\<close> and \<open>onClose\<close> has been invoked.
\<close>

record menu =
  isDragging :: bool
  position :: real
  dxCorrection :: real
  openRunning :: "open_instance option"
  openPerformCount :: nat
  closeRunning :: "close_instance option"
  closePerformCount :: nat
  onOpenCalls :: nat
  onCloseCalls :: nat

definition initial :: menu where
  "initial = \<lparr>isDragging = False, position = 0, dxCorrection = 0,
     openRunning = None, openPerformCount = 0,
     closeRunning = None, closePerformCount = 0,
     onOpenCalls = 0, onCloseCalls = 0\<rparr>"



subsection \<open>Computed properties\<close>

definition isLeft :: "config \<Rightarrow> bool" where
  "isLeft cfg = (type cfg = ''left'')"

definition isRight :: "config \<Rightarrow> bool" where
  "isRight cfg = (type cfg = ''right'')"

text \<open>The computed property \<open>_width\<close>: the current menu width in px.\<close>

definition menuWidth :: "config \<Rightarrow> real" where
  "menuWidth cfg =
     (if isFastBoot cfg then maxWidth cfg
      else min (width cfg / 100 * getWindowWidth cfg) (maxWidth cfg))"

definition isOpen :: "config \<Rightarrow> menu \<Rightarrow> bool" where
  "isOpen cfg s = (\<not> isDragging s \<and> position s = menuWidth cfg)"


subsection \<open>The tasks \<open>open\<close> and \<open>close\<close>\<close>

text \<open>
  The component imports the task scheduler (\<open>task(...).restartable()\<close>) and the
  \<open>Tween\<close>; neither is part of its source. What the two generator bodies do is taken
  from the source; when their pieces run is taken from the specification: performing a
  restartable task cancels the running instance of that same task and runs the new
  instance's body up to its \<open>yield\<close>; the tween then calls the projection with progress
  fractions and resolves once the fraction has reached 1, after which the body continues
  behind the \<open>yield\<close>. A cancelled instance produces no further progress values and its
  completion never fires.
\<close>

text \<open>
  Modelled from the spec: \<open>open.perform()\<close>, the scheduler being absent from the source.
  The new instance replaces the one in the task's slot (restartable) and runs the body up
  to the \<open>yield\<close>, capturing \<open>startPos\<close> and \<open>diff\<close>.
\<close>

definition perform_open :: "config \<Rightarrow> menu \<Rightarrow> menu" where
  "perform_open cfg s =
     (let startPos = position s;
          diff = menuWidth cfg - startPos
      in s\<lparr>openRunning := Some \<lparr>open_startPos = startPos, open_diff = diff\<rparr>,
           openPerformCount := Suc (openPerformCount s)\<rparr>)"

text \<open>
  Modelled from the spec: one callback of the tween of the running \<open>open\<close> instance, the
  \<open>Tween\<close> being absent from the source. The projection itself is the arrow function of
  the source. Without a running instance there is no tween and nothing happens.
\<close>

definition open_progress :: "real \<Rightarrow> menu \<Rightarrow> menu" where
  "open_progress progress s =
     (case openRunning s of
        None \<Rightarrow> s
      | Some t \<Rightarrow> s\<lparr>position := open_startPos t + open_diff t * progress\<rparr>)"

text \<open>
  Modelled from the spec: the tween of the running \<open>open\<close> instance reaches progress 1
  and resolves; the body continues behind the \<open>yield\<close> with the call of \<open>onOpen\<close>, and
  the instance has finished.
\<close>

definition open_complete :: "menu \<Rightarrow> menu" where
  "open_complete s =
     (case openRunning s of
        None \<Rightarrow> s
      | Some t \<Rightarrow>
          (let s1 = open_progress 1 s
           in s1\<lparr>openRunning := None, onOpenCalls := Suc (onOpenCalls s1)\<rparr>))"

text \<open>
  Modelled from the spec: \<open>close.perform()\<close>, the tween callback and the completion of
  the task \<open>close\<close>, in the same way.
\<close>

definition perform_close :: "menu \<Rightarrow> menu" where
  "perform_close s =
     (let startPos = position s
      in s\<lparr>closeRunning := Some \<lparr>close_startPos = startPos\<rparr>,
           closePerformCount := Suc (closePerformCount s)\<rparr>)"

definition close_progress :: "real \<Rightarrow> menu \<Rightarrow> menu" where
  "close_progress progress s =
     (case closeRunning s of
        None \<Rightarrow> s
      | Some t \<Rightarrow> s\<lparr>position := close_startPos t * (1 - progress)\<rparr>)"

definition close_complete :: "menu \<Rightarrow> menu" where
  "close_complete s =
     (case closeRunning s of
        None \<Rightarrow> s
      | Some t \<Rightarrow>
          (let s1 = close_progress 1 s
           in s1\<lparr>closeRunning := None, onCloseCalls := Suc (onCloseCalls s1)\<rparr>))"

text \<open>The actions \<open>open\<close> and \<open>close\<close> of the component.\<close>

definition action_open :: "config \<Rightarrow> menu \<Rightarrow> menu" where
  "action_open cfg s = perform_open cfg s"

definition action_close :: "menu \<Rightarrow> menu" where
  "action_close s = perform_close s"

subsection \<open>Pan handlers for opening the menu\<close>

definition panOpen :: "config \<Rightarrow> (pan_event \<Rightarrow> pan_event) \<Rightarrow> menu \<Rightarrow> pan_event \<Rightarrow> menu" where
  "panOpen cfg normalizeCoordinates s e =
     (let s1 = s\<lparr>isDragging := True\<rparr>;
          e' = (if embed cfg then normalizeCoordinates e else e);
          dx = (if isLeft cfg then distanceX e' else - distanceX e');
          w = menuWidth cfg;
          targetPosition = min (max dx 0) w
      in s1\<lparr>position := targetPosition\<rparr>)"

definition panOpenEnd :: "config \<Rightarrow> (pan_event \<Rightarrow> pan_event) \<Rightarrow> menu \<Rightarrow> pan_event \<Rightarrow> menu" where
  "panOpenEnd cfg normalizeCoordinates s e =
     (let s1 = s\<lparr>isDragging := False\<rparr>;
          e' = (if embed cfg then normalizeCoordinates e else e);
          w = menuWidth cfg;
          dx = (if isLeft cfg then distanceX e' else - distanceX e');
          vx = (if isLeft cfg then velocityX e' else - velocityX e')
      in if vx > triggerVelocity cfg \<or> dx > w / 2
         then perform_open cfg s1
         else perform_close s1)"

subsection \<open>Pan handlers for closing the menu\<close>

definition didPan :: "config \<Rightarrow> (pan_event \<Rightarrow> pan_event) \<Rightarrow> menu \<Rightarrow> pan_event \<Rightarrow> menu" where
  "didPan cfg normalizeCoordinates s e =
     (let e' = (if embed cfg then normalizeCoordinates e else e);
          windowWidth = getWindowWidth cfg;
          w = menuWidth cfg;
          dx = (if isLeft cfg then distanceX e' else - distanceX e');
          cx = (if isLeft cfg then pointerX e' else windowWidth - pointerX e');
          s1 = (if isOpen cfg s \<and> \<not> isDragging s
                then (if cx < w then s\<lparr>isDragging := True, dxCorrection := dx\<rparr> else s)
                else s)
      in if isDragging s1
         then (let targetPosition = dx - dxCorrection s1
               in if cx < w
                  then (let targetPosition' =
                              (if targetPosition > 0 then 0
                               else if targetPosition < - 1 * w then - 1 * w
                               else targetPosition)
                        in s1\<lparr>position := w + targetPosition'\<rparr>)
                  else s1)
         else s1)"

definition didPanEnd :: "config \<Rightarrow> (pan_event \<Rightarrow> pan_event) \<Rightarrow> menu \<Rightarrow> pan_event \<Rightarrow> menu" where
  "didPanEnd cfg normalizeCoordinates s e =
     (if isDragging s
      then (let s1 = s\<lparr>isDragging := False\<rparr>;
                e' = (if embed cfg then normalizeCoordinates e else e);
                w = menuWidth cfg;
                dx = (if isLeft cfg then distanceX e' else - distanceX e');
                vx = (if isLeft cfg then velocityX e' else - velocityX e');
                s2 = (if vx < - 1 * triggerVelocity cfg \<or> - 1 * dx > w / 2
                      then perform_close s1
                      else perform_open cfg s1)
            in s2\<lparr>dxCorrection := 0\<rparr>)
      else s)"

subsection \<open>Default arguments\<close>

text \<open>
  The default values of the arguments as the component declares them (\<open>type: 'left'\<close>,
  \<open>width: 85\<close>, \<open>maxWidth: 300\<close>, \<open>triggerVelocity: 0.3\<close>, \<open>embed: false\<close>), in a
  browser whose viewport is \<open>vw\<close> px wide.
\<close>

definition default_config :: "real \<Rightarrow> config" where
  "default_config vw =
     \<lparr>type = ''left'', width = 85, maxWidth = 300, triggerVelocity = 0.3,
      embed = False, isFastBoot = False, getWindowWidth = vw\<rparr>"

subsection \<open>Callbacks as events\<close>

text \<open>
  Everything runs on one thread: the recogniser calls the four pan handlers, the host
  calls the two actions, and each running tween calls its projection and, at the end,
  lets its task finish. One event is one such callback.
\<close>

datatype event =
    PanOpen pan_event
  | PanOpenEnd pan_event
  | DidPan pan_event
  | DidPanEnd pan_event
  | ActionOpen
  | ActionClose
  | OpenProgress real
  | OpenComplete
  | CloseProgress real
  | CloseComplete

fun step :: "config \<Rightarrow> (pan_event \<Rightarrow> pan_event) \<Rightarrow> menu \<Rightarrow> event \<Rightarrow> menu" where
  "step cfg nc s (PanOpen e) = panOpen cfg nc s e"
| "step cfg nc s (PanOpenEnd e) = panOpenEnd cfg nc s e"
| "step cfg nc s (DidPan e) = didPan cfg nc s e"
| "step cfg nc s (DidPanEnd e) = didPanEnd cfg nc s e"
| "step cfg nc s ActionOpen = action_open cfg s"
| "step cfg nc s ActionClose = action_close s"
| "step cfg nc s (OpenProgress p) = open_progress p s"
| "step cfg nc s OpenComplete = open_complete s"
| "step cfg nc s (CloseProgress p) = close_progress p s"
| "step cfg nc s CloseComplete = close_complete s"

definition run :: "config \<Rightarrow> (pan_event \<Rightarrow> pan_event) \<Rightarrow> menu \<Rightarrow> event list \<Rightarrow> menu" where
  "run cfg nc s evs = foldl (step cfg nc) s evs"

text \<open>The states passed through while the events are handled, one per event.\<close>

fun trace :: "config \<Rightarrow> (pan_event \<Rightarrow> pan_event) \<Rightarrow> menu \<Rightarrow> event list \<Rightarrow> menu list" where
  "trace cfg nc s [] = []"
| "trace cfg nc s (ev # evs) = step cfg nc s ev # trace cfg nc (step cfg nc s ev) evs"

text \<open>
  Modelled from the spec: a tween only produces progress fractions between 0 and 1; every
  other callback may arrive at any time.
\<close>

fun admissible :: "event \<Rightarrow> bool" where
  "admissible (OpenProgress p) = (0 \<le> p \<and> p \<le> 1)"
| "admissible (CloseProgress p) = (0 \<le> p \<and> p \<le> 1)"
| "admissible _ = True"

inductive reachable :: "config \<Rightarrow> (pan_event \<Rightarrow> pan_event) \<Rightarrow> menu \<Rightarrow> bool"
  for cfg :: config and nc :: "pan_event \<Rightarrow> pan_event" where
  reachable_initial: "reachable cfg nc initial"
| reachable_step: "reachable cfg nc s \<Longrightarrow> admissible ev \<Longrightarrow> reachable cfg nc (step cfg nc s ev)"

fun is_drag_sample :: "event \<Rightarrow> bool" where
  "is_drag_sample (PanOpen e) = True"
| "is_drag_sample (DidPan e) = True"
| "is_drag_sample _ = False"

fun is_gesture_end :: "event \<Rightarrow> bool" where
  "is_gesture_end (PanOpenEnd e) = True"
| "is_gesture_end (DidPanEnd e) = True"
| "is_gesture_end _ = False"

fun is_open_tween :: "event \<Rightarrow> bool" where
  "is_open_tween (OpenProgress p) = True"
| "is_open_tween OpenComplete = True"
| "is_open_tween _ = False"

text \<open>
  The states reached from the initial one by pan callbacks, by calls of the two actions
  and by callbacks of the close tween, that is, without a callback of the open tween.
\<close>

inductive reachable_without_open_tween ::
    "config \<Rightarrow> (pan_event \<Rightarrow> pan_event) \<Rightarrow> menu \<Rightarrow> bool"
  for cfg :: config and nc :: "pan_event \<Rightarrow> pan_event" where
  without_open_tween_initial: "reachable_without_open_tween cfg nc initial"
| without_open_tween_step:
    "reachable_without_open_tween cfg nc s \<Longrightarrow> admissible ev \<Longrightarrow> \<not> is_open_tween ev
       \<Longrightarrow> reachable_without_open_tween cfg nc (step cfg nc s ev)"

subsection \<open>The vocabulary of the specification\<close>

text \<open>
  The sample a handler works on (normalised when the menu is embedded), and its
  anchor-directionalised displacement \<open>dx\<close>, velocity \<open>vx\<close> and pointer coordinate
  \<open>cx\<close> measured from the anchored edge.
\<close>

definition normalized :: "config \<Rightarrow> (pan_event \<Rightarrow> pan_event) \<Rightarrow> pan_event \<Rightarrow> pan_event" where
  "normalized cfg nc e = (if embed cfg then nc e else e)"

definition directionalize :: "config \<Rightarrow> real \<Rightarrow> real" where
  "directionalize cfg rawDelta = (if isLeft cfg then rawDelta else - rawDelta)"

definition gesture_dx :: "config \<Rightarrow> (pan_event \<Rightarrow> pan_event) \<Rightarrow> pan_event \<Rightarrow> real" where
  "gesture_dx cfg nc e = directionalize cfg (distanceX (normalized cfg nc e))"

definition gesture_vx :: "config \<Rightarrow> (pan_event \<Rightarrow> pan_event) \<Rightarrow> pan_event \<Rightarrow> real" where
  "gesture_vx cfg nc e = directionalize cfg (velocityX (normalized cfg nc e))"

definition gesture_cx :: "config \<Rightarrow> (pan_event \<Rightarrow> pan_event) \<Rightarrow> pan_event \<Rightarrow> real" where
  "gesture_cx cfg nc e =
     (if isLeft cfg then pointerX (normalized cfg nc e)
      else getWindowWidth cfg - pointerX (normalized cfg nc e))"

datatype animation = OpenAnimation | CloseAnimation

text \<open>
  Which task a handler performed on the way from \<open>s\<close> to \<open>s'\<close>, read off the
  perform counts of the two tasks.
\<close>

definition selected :: "menu \<Rightarrow> menu \<Rightarrow> animation option" where
  "selected s s' =
     (if openPerformCount s' = Suc (openPerformCount s)
         \<and> closePerformCount s' = closePerformCount s then Some OpenAnimation
      else if closePerformCount s' = Suc (closePerformCount s)
         \<and> openPerformCount s' = openPerformCount s then Some CloseAnimation
      else None)"

definition in_range :: "config \<Rightarrow> menu \<Rightarrow> bool" where
  "in_range cfg s = (0 \<le> position s \<and> position s \<le> menuWidth cfg)"

text \<open>
  The decision the reposition channel would take if it judged the corrected displacement
  \<open>dx - dxCorrection\<close> (the one that placed the menu) instead of the raw one.
\<close>

definition corrected_decision :: "config \<Rightarrow> (pan_event \<Rightarrow> pan_event) \<Rightarrow> menu \<Rightarrow> pan_event \<Rightarrow> animation" where
  "corrected_decision cfg nc s e =
     (if gesture_vx cfg nc e < - triggerVelocity cfg
         \<or> - (gesture_dx cfg nc e - dxCorrection s) > menuWidth cfg / 2
      then CloseAnimation else OpenAnimation)"



section \<open>Properties\<close>

subsection \<open>Handlers in the vocabulary of the specification\<close>

lemmas vocab_defs = normalized_def directionalize_def gesture_dx_def gesture_vx_def gesture_cx_def

lemma didPan_vocab:
  "didPan cfg nc s e =
     (let dx = gesture_dx cfg nc e; cx = gesture_cx cfg nc e; w = menuWidth cfg;
          s1 = (if isOpen cfg s \<and> cx < w then s\<lparr>isDragging := True, dxCorrection := dx\<rparr> else s);
          t = dx - dxCorrection s1
      in if isDragging s1 \<and> cx < w
         then s1\<lparr>position := w + (if t > 0 then 0 else if t < - w then - w else t)\<rparr>
         else s1)"
  unfolding didPan_def gesture_dx_def gesture_cx_def directionalize_def normalized_def Let_def isOpen_def
  by (cases "embed cfg"; cases "isLeft cfg"; simp)

subsection \<open>Effective width\<close>

text \<open>
  Claim C6. For a configuration with \<open>width\<close> between 0 and 100, a positive \<open>maxWidth\<close>
  and a viewport that is not negative, the derived width \<open>_width\<close> is the minimum of
  \<open>width / 100 * viewport\<close> and \<open>maxWidth\<close> in the browser, is \<open>maxWidth\<close> under
  FastBoot, and is never negative.
\<close>

theorem menuWidth_formula:
  assumes "0 \<le> width cfg" and "width cfg \<le> 100" and "0 < maxWidth cfg" and "0 \<le> getWindowWidth cfg"
  shows "(\<not> isFastBoot cfg \<longrightarrow> menuWidth cfg = min (width cfg / 100 * getWindowWidth cfg) (maxWidth cfg))
       \<and> (isFastBoot cfg \<longrightarrow> menuWidth cfg = maxWidth cfg)
       \<and> 0 \<le> menuWidth cfg"
proof -
  have "0 \<le> width cfg / 100 * getWindowWidth cfg"
    using assms(1,4) by simp
  with assms(3) show ?thesis
    by (simp add: menuWidth_def)
qed

theorem menuWidth_formula_witness:
  "menuWidth (default_config 1000) = 300 \<and> menuWidth (default_config 200) = 170
   \<and> menuWidth ((default_config 1000)\<lparr>isFastBoot := True\<rparr>) = 300"
  using menuWidth_formula [of "default_config 1000"] menuWidth_formula [of "default_config 200"]
    menuWidth_formula [of "(default_config 1000)\<lparr>isFastBoot := True\<rparr>"]
  by (simp add: default_config_def)

subsection \<open>Decisions at the end of a gesture\<close>

text \<open>
  Claim C1. At the end of an open-channel drag, \<open>panOpenEnd\<close> performs the open task
  exactly when \<open>vx > triggerVelocity\<close> or \<open>dx > _width / 2\<close>, and the close task
  otherwise. With a width of 300 and a trigger velocity of 0.3: \<open>dx = 200, vx = 0\<close> opens,
  \<open>dx = 100, vx = 0\<close> closes, and \<open>vx = 0.5\<close> opens whatever \<open>dx\<close> is.
\<close>

theorem panOpenEnd_decision:
  "(selected s (panOpenEnd cfg nc s e) = Some OpenAnimation
      \<longleftrightarrow> gesture_vx cfg nc e > triggerVelocity cfg \<or> gesture_dx cfg nc e > menuWidth cfg / 2)
   \<and> (selected s (panOpenEnd cfg nc s e) = Some CloseAnimation
      \<longleftrightarrow> \<not> (gesture_vx cfg nc e > triggerVelocity cfg \<or> gesture_dx cfg nc e > menuWidth cfg / 2))
   \<and> (menuWidth cfg = 300 \<and> triggerVelocity cfg = 0.3 \<longrightarrow>
        (gesture_dx cfg nc e = 200 \<and> gesture_vx cfg nc e = 0
           \<longrightarrow> selected s (panOpenEnd cfg nc s e) = Some OpenAnimation)
      \<and> (gesture_dx cfg nc e = 100 \<and> gesture_vx cfg nc e = 0
           \<longrightarrow> selected s (panOpenEnd cfg nc s e) = Some CloseAnimation)
      \<and> (gesture_vx cfg nc e = 0.5
           \<longrightarrow> selected s (panOpenEnd cfg nc s e) = Some OpenAnimation))"
  by (simp add: panOpenEnd_def perform_open_def perform_close_def selected_def vocab_defs Let_def)

theorem panOpenEnd_decision_witness:
  "selected initial (panOpenEnd (default_config 1000) id initial
      \<lparr>distanceX = 200, velocityX = 0, pointerX = 200\<rparr>) = Some OpenAnimation
   \<and> selected initial (panOpenEnd (default_config 1000) id initial
      \<lparr>distanceX = 100, velocityX = 0, pointerX = 100\<rparr>) = Some CloseAnimation
   \<and> selected initial (panOpenEnd (default_config 1000) id initial
      \<lparr>distanceX = 0, velocityX = 0.5, pointerX = 0\<rparr>) = Some OpenAnimation"
proof -
  let ?cfg = "default_config 1000"
  have cfg: "menuWidth ?cfg = 300 \<and> triggerVelocity ?cfg = 0.3"
    by (simp add: menuWidth_def default_config_def)
  have e1: "gesture_dx ?cfg id \<lparr>distanceX = 200, velocityX = 0, pointerX = 200\<rparr> = 200
      \<and> gesture_vx ?cfg id \<lparr>distanceX = 200, velocityX = 0, pointerX = 200\<rparr> = 0"
    by (simp add: gesture_dx_def gesture_vx_def directionalize_def normalized_def isLeft_def
        default_config_def)
  have e2: "gesture_dx ?cfg id \<lparr>distanceX = 100, velocityX = 0, pointerX = 100\<rparr> = 100
      \<and> gesture_vx ?cfg id \<lparr>distanceX = 100, velocityX = 0, pointerX = 100\<rparr> = 0"
    by (simp add: gesture_dx_def gesture_vx_def directionalize_def normalized_def isLeft_def
        default_config_def)
  have e3: "gesture_vx ?cfg id \<lparr>distanceX = 0, velocityX = 0.5, pointerX = 0\<rparr> = 0.5"
    by (simp add: gesture_vx_def directionalize_def normalized_def isLeft_def default_config_def)
  show ?thesis
    using panOpenEnd_decision [of initial ?cfg id "\<lparr>distanceX = 200, velocityX = 0, pointerX = 200\<rparr>"]
      panOpenEnd_decision [of initial ?cfg id "\<lparr>distanceX = 100, velocityX = 0, pointerX = 100\<rparr>"]
      panOpenEnd_decision [of initial ?cfg id "\<lparr>distanceX = 0, velocityX = 0.5, pointerX = 0\<rparr>"]
      cfg e1 e2 e3
    by blast
qed

text \<open>
  Claim C2. At the end of a reposition-channel drag (\<open>isDragging\<close> set on entry),
  \<open>didPanEnd\<close> performs the close task exactly when \<open>vx < - triggerVelocity\<close> or
  \<open>- dx > _width / 2\<close>, and the open task otherwise. With a width of 300 and a trigger
  velocity of 0.3: \<open>dx = - 200, vx = 0\<close> closes, \<open>dx = - 100, vx = 0\<close> opens, and
  \<open>vx = - 0.5\<close> closes whatever \<open>dx\<close> is.
\<close>

theorem didPanEnd_decision:
  assumes "isDragging s"
  shows "(selected s (didPanEnd cfg nc s e) = Some CloseAnimation
      \<longleftrightarrow> gesture_vx cfg nc e < - triggerVelocity cfg \<or> - gesture_dx cfg nc e > menuWidth cfg / 2)
   \<and> (selected s (didPanEnd cfg nc s e) = Some OpenAnimation
      \<longleftrightarrow> \<not> (gesture_vx cfg nc e < - triggerVelocity cfg \<or> - gesture_dx cfg nc e > menuWidth cfg / 2))
   \<and> (menuWidth cfg = 300 \<and> triggerVelocity cfg = 0.3 \<longrightarrow>
        (gesture_dx cfg nc e = - 200 \<and> gesture_vx cfg nc e = 0
           \<longrightarrow> selected s (didPanEnd cfg nc s e) = Some CloseAnimation)
      \<and> (gesture_dx cfg nc e = - 100 \<and> gesture_vx cfg nc e = 0
           \<longrightarrow> selected s (didPanEnd cfg nc s e) = Some OpenAnimation)
      \<and> (gesture_vx cfg nc e = - 0.5
           \<longrightarrow> selected s (didPanEnd cfg nc s e) = Some CloseAnimation))"
  using assms
  by (simp add: didPanEnd_def perform_open_def perform_close_def selected_def vocab_defs Let_def)

theorem didPanEnd_decision_witness:
  "isDragging (initial\<lparr>isDragging := True\<rparr>)
   \<and> selected (initial\<lparr>isDragging := True\<rparr>)
       (didPanEnd (default_config 1000) id (initial\<lparr>isDragging := True\<rparr>)
          \<lparr>distanceX = - 200, velocityX = 0, pointerX = 50\<rparr>) = Some CloseAnimation
   \<and> selected (initial\<lparr>isDragging := True\<rparr>)
       (didPanEnd (default_config 1000) id (initial\<lparr>isDragging := True\<rparr>)
          \<lparr>distanceX = - 100, velocityX = 0, pointerX = 150\<rparr>) = Some OpenAnimation
   \<and> selected (initial\<lparr>isDragging := True\<rparr>)
       (didPanEnd (default_config 1000) id (initial\<lparr>isDragging := True\<rparr>)
          \<lparr>distanceX = 0, velocityX = - 0.5, pointerX = 250\<rparr>) = Some CloseAnimation"
proof -
  let ?cfg = "default_config 1000"
  let ?s = "initial\<lparr>isDragging := True\<rparr>"
  have s: "isDragging ?s"
    by simp
  have cfg: "menuWidth ?cfg = 300 \<and> triggerVelocity ?cfg = 0.3"
    by (simp add: menuWidth_def default_config_def)
  have e1: "gesture_dx ?cfg id \<lparr>distanceX = - 200, velocityX = 0, pointerX = 50\<rparr> = - 200
      \<and> gesture_vx ?cfg id \<lparr>distanceX = - 200, velocityX = 0, pointerX = 50\<rparr> = 0"
    by (simp add: gesture_dx_def gesture_vx_def directionalize_def normalized_def isLeft_def
        default_config_def)
  have e2: "gesture_dx ?cfg id \<lparr>distanceX = - 100, velocityX = 0, pointerX = 150\<rparr> = - 100
      \<and> gesture_vx ?cfg id \<lparr>distanceX = - 100, velocityX = 0, pointerX = 150\<rparr> = 0"
    by (simp add: gesture_dx_def gesture_vx_def directionalize_def normalized_def isLeft_def
        default_config_def)
  have e3: "gesture_vx ?cfg id \<lparr>distanceX = 0, velocityX = - 0.5, pointerX = 250\<rparr> = - 0.5"
    by (simp add: gesture_vx_def directionalize_def normalized_def isLeft_def default_config_def)
  show ?thesis
    using didPanEnd_decision [OF s, of ?cfg id "\<lparr>distanceX = - 200, velocityX = 0, pointerX = 50\<rparr>"]
      didPanEnd_decision [OF s, of ?cfg id "\<lparr>distanceX = - 100, velocityX = 0, pointerX = 150\<rparr>"]
      didPanEnd_decision [OF s, of ?cfg id "\<lparr>distanceX = 0, velocityX = - 0.5, pointerX = 250\<rparr>"]
      cfg e1 e2 e3 s
    by blast
qed

subsection \<open>The position stays in range while dragging\<close>

lemma panOpen_in_range:
  "0 \<le> menuWidth cfg \<Longrightarrow> in_range cfg (panOpen cfg nc s e)"
  by (simp add: panOpen_def in_range_def Let_def)

lemma didPan_position:
  "0 \<le> menuWidth cfg \<Longrightarrow>
     position (didPan cfg nc s e) = position s \<or> in_range cfg (didPan cfg nc s e)"
  by (simp add: didPan_def in_range_def Let_def)

lemma drag_step_in_range:
  assumes "0 \<le> menuWidth cfg" and "in_range cfg s" and "is_drag_sample ev"
  shows "in_range cfg (step cfg nc s ev)"
proof (cases ev)
  case (PanOpen e)
  then show ?thesis using assms(1) by (simp add: panOpen_in_range)
next
  case (DidPan e)
  then show ?thesis
    using didPan_position [OF assms(1), of nc s e] assms(2) by (auto simp: in_range_def)
qed (use assms(3) in simp_all)

lemma drag_trace_in_range:
  "0 \<le> menuWidth cfg \<Longrightarrow> in_range cfg s \<Longrightarrow> list_all is_drag_sample evs
     \<Longrightarrow> list_all (in_range cfg) (trace cfg nc s evs)"
  by (induction evs arbitrary: s) (simp_all add: drag_step_in_range)

text \<open>
  Claim C3. With a width that is not negative, \<open>panOpen\<close> always writes a position
  between 0 and the width; \<open>didPan\<close> either leaves the position as it was or writes one
  between 0 and the width; hence along every sequence of drag samples of the two channels
  that starts in range, every state passed through is in range.
\<close>

theorem drag_position_in_range:
  assumes "0 \<le> menuWidth cfg"
  shows "in_range cfg (panOpen cfg nc s e)
       \<and> (position (didPan cfg nc s e) = position s \<or> in_range cfg (didPan cfg nc s e))
       \<and> (in_range cfg s \<and> list_all is_drag_sample evs
            \<longrightarrow> list_all (in_range cfg) (trace cfg nc s evs))"
  using assms panOpen_in_range didPan_position drag_trace_in_range by blast

theorem drag_position_in_range_witness:
  "0 \<le> menuWidth (default_config 1000)
   \<and> in_range (default_config 1000) initial
   \<and> list_all is_drag_sample
       [PanOpen \<lparr>distanceX = 400, velocityX = 0, pointerX = 400\<rparr>,
        DidPan \<lparr>distanceX = - 500, velocityX = 0, pointerX = 10\<rparr>]
   \<and> list_all (in_range (default_config 1000))
       (trace (default_config 1000) id initial
         [PanOpen \<lparr>distanceX = 400, velocityX = 0, pointerX = 400\<rparr>,
          DidPan \<lparr>distanceX = - 500, velocityX = 0, pointerX = 10\<rparr>])
   \<and> position (panOpen (default_config 1000) id initial
        \<lparr>distanceX = 400, velocityX = 0, pointerX = 400\<rparr>) = 300"
proof -
  let ?cfg = "default_config 1000"
  have w: "menuWidth ?cfg = 300"
    by (simp add: menuWidth_def default_config_def)
  have h0: "0 \<le> menuWidth ?cfg"
    by (simp add: w)
  have h1: "in_range ?cfg initial"
    by (simp add: in_range_def w initial_def)
  have h2: "list_all is_drag_sample
       [PanOpen \<lparr>distanceX = 400, velocityX = 0, pointerX = 400\<rparr>,
        DidPan \<lparr>distanceX = - 500, velocityX = 0, pointerX = 10\<rparr>]"
    by simp
  have p: "position (panOpen ?cfg id initial
        \<lparr>distanceX = 400, velocityX = 0, pointerX = 400\<rparr>) = 300"
    by (simp add: panOpen_def w Let_def) (simp add: isLeft_def default_config_def)
  show ?thesis
    using drag_position_in_range [OF h0, of id initial _ "[PanOpen \<lparr>distanceX = 400, velocityX = 0, pointerX = 400\<rparr>,
        DidPan \<lparr>distanceX = - 500, velocityX = 0, pointerX = 10\<rparr>]"] h0 h1 h2 p
    by blast
qed

subsection \<open>The correction offset of the reposition channel\<close>

lemma didPan_keeps_drag:
  "isDragging s \<Longrightarrow>
     isDragging (didPan cfg nc s e) \<and> dxCorrection (didPan cfg nc s e) = dxCorrection s"
  by (simp add: didPan_vocab isOpen_def Let_def)

lemma didPan_run_keeps_drag:
  "isDragging s \<Longrightarrow>
     isDragging (run cfg nc s (map DidPan mids))
     \<and> dxCorrection (run cfg nc s (map DidPan mids)) = dxCorrection s"
proof (induction mids arbitrary: s)
  case Nil
  then show ?case by (simp add: run_def)
next
  case (Cons e mids)
  note d = didPan_keeps_drag [OF Cons.prems, of cfg nc e]
  from Cons.IH [OF conjunct1 [OF d]] d show ?case
    by (simp add: run_def)
qed

text \<open>
  Claim C4, as amended. When a reposition sample arrives while the menu is open with the
  pointer inside the footprint (\<open>cx < _width\<close>), \<open>didPan\<close> starts dragging and stores the
  directionalised displacement of that sample in \<open>dxCorrection\<close>. After any number of
  further reposition samples, a sample inside the footprint whose displacement is
  smaller by 50 than the one at recognition sets the position to \<open>max (_width - 50) 0\<close>,
  whatever the displacement before recognition was: that is \<open>_width - 50\<close> as soon as
  the width is at least 50, and the lower limit 0 of the clamp otherwise.
\<close>

theorem didPan_correction:
  assumes "isOpen cfg s"
    and "gesture_cx cfg nc e1 < menuWidth cfg"
    and "gesture_cx cfg nc e2 < menuWidth cfg"
    and "gesture_dx cfg nc e2 = gesture_dx cfg nc e1 - 50"
  shows "isDragging (didPan cfg nc s e1)
       \<and> dxCorrection (didPan cfg nc s e1) = gesture_dx cfg nc e1
       \<and> position (didPan cfg nc (run cfg nc (didPan cfg nc s e1) (map DidPan mids)) e2)
           = max (menuWidth cfg - 50) 0
       \<and> (50 \<le> menuWidth cfg \<longrightarrow>
            position (didPan cfg nc (run cfg nc (didPan cfg nc s e1) (map DidPan mids)) e2)
              = menuWidth cfg - 50)"
proof -
  let ?s1 = "didPan cfg nc s e1"
  let ?s2 = "run cfg nc ?s1 (map DidPan mids)"
  have s1: "isDragging ?s1" "dxCorrection ?s1 = gesture_dx cfg nc e1"
    using assms(1,2) by (simp_all add: didPan_vocab Let_def)
  have s2: "isDragging ?s2" "dxCorrection ?s2 = gesture_dx cfg nc e1"
    using didPan_run_keeps_drag [OF s1(1), of cfg nc mids] s1(2) by simp_all
  have "\<not> isOpen cfg ?s2"
    using s2(1) by (simp add: isOpen_def)
  then have "position (didPan cfg nc ?s2 e2) = max (menuWidth cfg - 50) 0"
    using s2 assms(3,4) unfolding didPan_vocab [of cfg nc ?s2 e2]
    by (simp add: Let_def max_def)
  with s1 show ?thesis by simp
qed

theorem didPan_correction_witness:
  "isOpen (default_config 1000) (initial\<lparr>position := 300\<rparr>)
   \<and> dxCorrection (didPan (default_config 1000) id (initial\<lparr>position := 300\<rparr>)
        \<lparr>distanceX = - 20, velocityX = 0, pointerX = 150\<rparr>) = - 20
   \<and> position (didPan (default_config 1000) id
        (run (default_config 1000) id
           (didPan (default_config 1000) id (initial\<lparr>position := 300\<rparr>)
              \<lparr>distanceX = - 20, velocityX = 0, pointerX = 150\<rparr>)
           (map DidPan [\<lparr>distanceX = - 40, velocityX = 0, pointerX = 130\<rparr>]))
        \<lparr>distanceX = - 70, velocityX = 0, pointerX = 100\<rparr>) = 250"
proof -
  let ?cfg = "default_config 1000"
  let ?s = "initial\<lparr>position := 300\<rparr>"
  let ?e1 = "\<lparr>distanceX = - 20, velocityX = 0, pointerX = 150\<rparr>"
  let ?e2 = "\<lparr>distanceX = - 70, velocityX = 0, pointerX = 100\<rparr>"
  have w: "menuWidth ?cfg = 300"
    by (simp add: menuWidth_def default_config_def)
  have h1: "isOpen ?cfg ?s"
    by (simp add: isOpen_def w initial_def)
  have h2: "gesture_cx ?cfg id ?e1 < menuWidth ?cfg"
    by (simp add: w) (simp add: gesture_cx_def normalized_def isLeft_def default_config_def)
  have h3: "gesture_cx ?cfg id ?e2 < menuWidth ?cfg"
    by (simp add: w) (simp add: gesture_cx_def normalized_def isLeft_def default_config_def)
  have dx1: "gesture_dx ?cfg id ?e1 = - 20"
    by (simp add: gesture_dx_def directionalize_def normalized_def isLeft_def default_config_def)
  have dx2: "gesture_dx ?cfg id ?e2 = - 70"
    by (simp add: gesture_dx_def directionalize_def normalized_def isLeft_def default_config_def)
  have h4: "gesture_dx ?cfg id ?e2 = gesture_dx ?cfg id ?e1 - 50"
    by (simp add: dx1 dx2)
  show ?thesis
    using didPan_correction [OF h1 h2 h3 h4, of "[\<lparr>distanceX = - 40, velocityX = 0, pointerX = 130\<rparr>]"] h1
    by (simp add: w dx1)
qed

text \<open>
  The claim C4 as stated fails on a menu narrower than 50 px: with \<open>maxWidth = 30\<close> the
  menu is open at position 30, the drag is recognised at \<open>distanceX = - 20\<close>, and at
  \<open>distanceX = - 70\<close> the clamp holds the position at 0, not at \<open>30 - 50\<close>.
\<close>

theorem didPan_correction_counterexample:
  "isOpen ((default_config 1000)\<lparr>maxWidth := 30\<rparr>) (initial\<lparr>position := 30\<rparr>)
   \<and> gesture_cx ((default_config 1000)\<lparr>maxWidth := 30\<rparr>) id
        \<lparr>distanceX = - 20, velocityX = 0, pointerX = 15\<rparr>
       < menuWidth ((default_config 1000)\<lparr>maxWidth := 30\<rparr>)
   \<and> gesture_cx ((default_config 1000)\<lparr>maxWidth := 30\<rparr>) id
        \<lparr>distanceX = - 70, velocityX = 0, pointerX = - 35\<rparr>
       < menuWidth ((default_config 1000)\<lparr>maxWidth := 30\<rparr>)
   \<and> gesture_dx ((default_config 1000)\<lparr>maxWidth := 30\<rparr>) id
        \<lparr>distanceX = - 70, velocityX = 0, pointerX = - 35\<rparr>
       = gesture_dx ((default_config 1000)\<lparr>maxWidth := 30\<rparr>) id
        \<lparr>distanceX = - 20, velocityX = 0, pointerX = 15\<rparr> - 50
   \<and> position (didPan ((default_config 1000)\<lparr>maxWidth := 30\<rparr>) id
        (didPan ((default_config 1000)\<lparr>maxWidth := 30\<rparr>) id (initial\<lparr>position := 30\<rparr>)
           \<lparr>distanceX = - 20, velocityX = 0, pointerX = 15\<rparr>)
        \<lparr>distanceX = - 70, velocityX = 0, pointerX = - 35\<rparr>)
       \<noteq> menuWidth ((default_config 1000)\<lparr>maxWidth := 30\<rparr>) - 50"
  by (simp add: didPan_def isOpen_def menuWidth_def isLeft_def gesture_cx_def gesture_dx_def
      directionalize_def normalized_def default_config_def initial_def Let_def)

subsection \<open>The tasks\<close>

lemmas task_defs = perform_open_def perform_close_def action_open_def action_close_def
  open_progress_def open_complete_def close_progress_def close_complete_def

lemma close_frames_keep:
  "closeRunning (run cfg nc s (map CloseProgress qs)) = closeRunning s
   \<and> onCloseCalls (run cfg nc s (map CloseProgress qs)) = onCloseCalls s"
  unfolding run_def
  by (induction qs arbitrary: s) (simp_all add: close_progress_def split: option.splits)

text \<open>
  Claim C8. A call of \<open>close()\<close> captures the position as its start position; every
  progress fraction \<open>p\<close> the tween then produces writes the position
  \<open>startPosition * (1 - p)\<close>, and when the tween completes the hook \<open>onClose\<close> is
  invoked once and the task is no longer running.
\<close>

theorem close_projection:
  "closeRunning (action_close s) = Some \<lparr>close_startPos = position s\<rparr>
   \<and> position (close_progress p (run cfg nc (action_close s) (map CloseProgress qs)))
       = position s * (1 - p)
   \<and> onCloseCalls (close_complete (run cfg nc (action_close s) (map CloseProgress qs)))
       = Suc (onCloseCalls s)
   \<and> closeRunning (close_complete (run cfg nc (action_close s) (map CloseProgress qs))) = None"
proof -
  let ?s1 = "action_close s"
  let ?s2 = "run cfg nc ?s1 (map CloseProgress qs)"
  have s1: "closeRunning ?s1 = Some \<lparr>close_startPos = position s\<rparr>" "onCloseCalls ?s1 = onCloseCalls s"
    by (simp_all add: action_close_def perform_close_def)
  have s2: "closeRunning ?s2 = Some \<lparr>close_startPos = position s\<rparr>" "onCloseCalls ?s2 = onCloseCalls s"
    using close_frames_keep [of cfg nc ?s1 qs] s1 by simp_all
  have "position (close_progress p ?s2) = position s * (1 - p)"
    by (simp add: close_progress_def s2)
  moreover have "onCloseCalls (close_complete ?s2) = Suc (onCloseCalls s)"
    by (simp add: close_complete_def close_progress_def s2)
  moreover have "closeRunning (close_complete ?s2) = None"
    by (simp add: close_complete_def close_progress_def s2)
  ultimately show ?thesis using s1 by simp
qed

subsection \<open>Positions in range away from the open animation\<close>








lemma panOpen_tasks:
  "openRunning (panOpen cfg nc s e) = openRunning s
   \<and> closeRunning (panOpen cfg nc s e) = closeRunning s"
  by (simp add: panOpen_def Let_def)

lemma didPan_tasks:
  "openRunning (didPan cfg nc s e) = openRunning s
   \<and> closeRunning (didPan cfg nc s e) = closeRunning s"
  by (simp add: didPan_vocab Let_def)

lemma panOpenEnd_cases:
  "panOpenEnd cfg nc s e = perform_open cfg (s\<lparr>isDragging := False\<rparr>)
   \<or> panOpenEnd cfg nc s e = perform_close (s\<lparr>isDragging := False\<rparr>)"
  by (simp add: panOpenEnd_def Let_def)

lemma didPanEnd_cases:
  "isDragging s \<Longrightarrow>
     didPanEnd cfg nc s e = (perform_open cfg (s\<lparr>isDragging := False\<rparr>))\<lparr>dxCorrection := 0\<rparr>
   \<or> didPanEnd cfg nc s e = (perform_close (s\<lparr>isDragging := False\<rparr>))\<lparr>dxCorrection := 0\<rparr>"
  by (simp add: didPanEnd_def Let_def)







subsection \<open>Who writes the position, and when\<close>

lemma step_keeps_isDragging:
  assumes "isDragging s" and "\<not> is_gesture_end ev"
  shows "isDragging (step cfg nc s ev)"
proof (cases ev)
  case (PanOpen e)
  then show ?thesis by (simp add: panOpen_def Let_def)
next
  case (DidPan e)
  then show ?thesis using assms(1) by (simp add: didPan_vocab Let_def)
next
  case (PanOpenEnd e)
  then show ?thesis using assms(2) by simp
next
  case (DidPanEnd e)
  then show ?thesis using assms(2) by simp
qed (use assms(1) in \<open>simp_all add: task_defs Let_def split: option.splits\<close>)

text \<open>
  Claim C5, as amended. Only the gesture-end handlers clear \<open>isDragging\<close>, and they do
  so before they perform a task: \<open>panOpenEnd\<close> always, \<open>didPanEnd\<close> when a drag is in
  progress (otherwise it does nothing); every other callback, be it a drag sample, a call
  of \<open>open()\<close> or \<open>close()\<close>, or a callback of a tween, leaves \<open>isDragging\<close> set when it
  is set. A call of \<open>open()\<close> or \<open>close()\<close> restarts its own task from the current
  position, leaves a running instance of the other task running and leaves
  \<open>isDragging\<close> as it is. The drag handlers \<open>panOpen\<close> and \<open>didPan\<close> leave both
  tasks as they are.
\<close>

theorem writer_discipline:
  "(panOpenEnd cfg nc s e = perform_open cfg (s\<lparr>isDragging := False\<rparr>)
      \<or> panOpenEnd cfg nc s e = perform_close (s\<lparr>isDragging := False\<rparr>))
   \<and> \<not> isDragging (panOpenEnd cfg nc s e)
   \<and> (isDragging s \<longrightarrow>
        (didPanEnd cfg nc s e = (perform_open cfg (s\<lparr>isDragging := False\<rparr>))\<lparr>dxCorrection := 0\<rparr>
           \<or> didPanEnd cfg nc s e = (perform_close (s\<lparr>isDragging := False\<rparr>))\<lparr>dxCorrection := 0\<rparr>)
        \<and> \<not> isDragging (didPanEnd cfg nc s e))
   \<and> (\<not> isDragging s \<longrightarrow> didPanEnd cfg nc s e = s)
   \<and> (isDragging s \<and> \<not> is_gesture_end ev \<longrightarrow> isDragging (step cfg nc s ev))
   \<and> isDragging (action_open cfg s) = isDragging s
   \<and> closeRunning (action_open cfg s) = closeRunning s
   \<and> openRunning (action_open cfg s)
       = Some \<lparr>open_startPos = position s, open_diff = menuWidth cfg - position s\<rparr>
   \<and> isDragging (action_close s) = isDragging s
   \<and> openRunning (action_close s) = openRunning s
   \<and> closeRunning (action_close s) = Some \<lparr>close_startPos = position s\<rparr>
   \<and> openRunning (panOpen cfg nc s e) = openRunning s
   \<and> closeRunning (panOpen cfg nc s e) = closeRunning s
   \<and> openRunning (didPan cfg nc s e) = openRunning s
   \<and> closeRunning (didPan cfg nc s e) = closeRunning s"
proof -
  have a: "\<not> isDragging (panOpenEnd cfg nc s e)"
    by (simp add: panOpenEnd_def perform_open_def perform_close_def Let_def)
  have b: "isDragging s \<Longrightarrow> \<not> isDragging (didPanEnd cfg nc s e)"
    by (simp add: didPanEnd_def perform_open_def perform_close_def Let_def)
  have c: "\<not> isDragging s \<Longrightarrow> didPanEnd cfg nc s e = s"
    by (simp add: didPanEnd_def)
  have d: "isDragging (action_open cfg s) = isDragging s"
      "closeRunning (action_open cfg s) = closeRunning s"
      "openRunning (action_open cfg s)
        = Some \<lparr>open_startPos = position s, open_diff = menuWidth cfg - position s\<rparr>"
    by (simp_all add: action_open_def perform_open_def Let_def)
  have f: "isDragging (action_close s) = isDragging s"
      "openRunning (action_close s) = openRunning s"
      "closeRunning (action_close s) = Some \<lparr>close_startPos = position s\<rparr>"
    by (simp_all add: action_close_def perform_close_def Let_def)
  have g: "isDragging s \<and> \<not> is_gesture_end ev \<longrightarrow> isDragging (step cfg nc s ev)"
    using step_keeps_isDragging [of s ev cfg nc] by blast
  show ?thesis
    using a b c d f g panOpenEnd_cases [of cfg nc s e] didPanEnd_cases [of s cfg nc e]
      panOpen_tasks [of cfg nc s e] didPan_tasks [of cfg nc s e]
    by blast
qed

theorem writer_discipline_witness:
  "isDragging (initial\<lparr>isDragging := True, position := 120\<rparr>)
   \<and> \<not> isDragging (didPanEnd (default_config 1000) id (initial\<lparr>isDragging := True, position := 120\<rparr>)
        \<lparr>distanceX = - 180, velocityX = 0, pointerX = 120\<rparr>)
   \<and> \<not> is_gesture_end ActionOpen
   \<and> isDragging (step (default_config 1000) id (initial\<lparr>isDragging := True, position := 120\<rparr>)
        ActionOpen)
   \<and> \<not> isDragging initial
   \<and> didPanEnd (default_config 1000) id initial \<lparr>distanceX = - 180, velocityX = 0, pointerX = 120\<rparr>
       = initial"
proof -
  have h1: "isDragging (initial\<lparr>isDragging := True, position := 120\<rparr>)"
    by simp
  have h2: "\<not> isDragging initial"
    by (simp add: initial_def)
  have h3: "\<not> is_gesture_end ActionOpen"
    by simp
  show ?thesis
    using writer_discipline [of "default_config 1000" id "initial\<lparr>isDragging := True, position := 120\<rparr>"
        "\<lparr>distanceX = - 180, velocityX = 0, pointerX = 120\<rparr>" ActionOpen]
      writer_discipline [of "default_config 1000" id initial
        "\<lparr>distanceX = - 180, velocityX = 0, pointerX = 120\<rparr>" ActionOpen] h1 h2 h3
    by blast
qed

text \<open>
  The claim C5 as stated fails in each of its parts that goes beyond the gesture-end
  handlers: \<open>open()\<close> called during a drag leaves \<open>isDragging\<close> set; \<open>open()\<close> called
  after \<open>close()\<close> leaves the close animation running; and \<open>panOpen\<close> arriving after
  \<open>open()\<close> leaves the open animation running.
\<close>

theorem writer_discipline_counterexample:
  "isDragging (action_open (default_config 1000)
      (panOpen (default_config 1000) id initial \<lparr>distanceX = 100, velocityX = 0, pointerX = 100\<rparr>))
   \<and> closeRunning (action_open (default_config 1000) (action_close initial))
       = Some \<lparr>close_startPos = 0\<rparr>
   \<and> openRunning (panOpen (default_config 1000) id (action_open (default_config 1000) initial)
        \<lparr>distanceX = 100, velocityX = 0, pointerX = 100\<rparr>)
       = Some \<lparr>open_startPos = 0, open_diff = 300\<rparr>"
  by (simp add: action_open_def action_close_def perform_open_def perform_close_def panOpen_def
      menuWidth_def default_config_def initial_def Let_def)

subsection \<open>The reposition decision and the correction offset\<close>

lemma didPanEnd_selected:
  "isDragging s \<Longrightarrow>
     selected s (didPanEnd cfg nc s e) =
       (if gesture_vx cfg nc e < - triggerVelocity cfg \<or> - gesture_dx cfg nc e > menuWidth cfg / 2
        then Some CloseAnimation else Some OpenAnimation)"
  by (simp add: didPanEnd_def perform_open_def perform_close_def selected_def vocab_defs Let_def)

lemma directionalize_twice: "directionalize cfg (directionalize cfg d) = d"
  by (simp add: directionalize_def)

lemma didPanEnd_differs:
  assumes drag: "isDragging s" and c: "dxCorrection s \<noteq> 0" and emb: "\<not> embed cfg"
  shows "\<exists>e. selected s (didPanEnd cfg nc s e) \<noteq> Some (corrected_decision cfg nc s e)"
proof -
  define d where "d = (if 0 < dxCorrection s then - (menuWidth cfg / 2)
                       else - (menuWidth cfg / 2) + dxCorrection s)"
  define e where "e = \<lparr>distanceX = directionalize cfg d,
                        velocityX = directionalize cfg \<bar>triggerVelocity cfg\<bar>, pointerX = 0\<rparr>"
  have dx: "gesture_dx cfg nc e = d"
    using emb by (simp add: gesture_dx_def normalized_def e_def directionalize_twice)
  have vx: "gesture_vx cfg nc e = \<bar>triggerVelocity cfg\<bar>"
    using emb by (simp add: gesture_vx_def normalized_def e_def directionalize_twice)
  have nv: "\<not> gesture_vx cfg nc e < - triggerVelocity cfg"
    unfolding vx by linarith
  have "selected s (didPanEnd cfg nc s e) \<noteq> Some (corrected_decision cfg nc s e)"
  proof (cases "0 < dxCorrection s")
    case True
    then have "d = - (menuWidth cfg / 2)"
      by (simp add: d_def)
    with True nv show ?thesis
      by (simp add: didPanEnd_selected [OF drag] corrected_decision_def dx)
  next
    case False
    with c have neg: "dxCorrection s < 0"
      by simp
    then have "d = - (menuWidth cfg / 2) + dxCorrection s"
      by (simp add: d_def)
    with neg nv show ?thesis
      by (simp add: didPanEnd_selected [OF drag] corrected_decision_def dx)
  qed
  then show ?thesis ..
qed

text \<open>
  Claim C10. At the end of a reposition drag, \<open>didPanEnd\<close> decides on the raw
  directionalised displacement \<open>dx\<close>: the decision is the same whatever value
  \<open>dxCorrection\<close> holds. Hence, whenever the captured correction is not zero, there is a
  final sample at which the animation performed differs from the one that the corrected
  displacement \<open>dx - dxCorrection\<close>, which placed the menu, would select.
\<close>

theorem didPanEnd_ignores_dxCorrection:
  assumes "isDragging s" and "dxCorrection s \<noteq> 0"
  shows "(selected s (didPanEnd cfg nc s e) = Some CloseAnimation
           \<longleftrightarrow> gesture_vx cfg nc e < - triggerVelocity cfg
               \<or> - gesture_dx cfg nc e > menuWidth cfg / 2)
       \<and> selected (s\<lparr>dxCorrection := c\<rparr>) (didPanEnd cfg nc (s\<lparr>dxCorrection := c\<rparr>) e)
           = selected s (didPanEnd cfg nc s e)
       \<and> (\<not> embed cfg \<longrightarrow>
            (\<exists>e'. selected s (didPanEnd cfg nc s e') \<noteq> Some (corrected_decision cfg nc s e')))"
proof -
  have "isDragging (s\<lparr>dxCorrection := c\<rparr>)"
    using assms(1) by simp
  then have "selected (s\<lparr>dxCorrection := c\<rparr>) (didPanEnd cfg nc (s\<lparr>dxCorrection := c\<rparr>) e)
      = selected s (didPanEnd cfg nc s e)"
    by (simp only: didPanEnd_selected assms(1))
  then show ?thesis
    using didPanEnd_differs [OF assms] by (simp add: didPanEnd_selected [OF assms(1)])
qed

theorem didPanEnd_ignores_dxCorrection_witness:
  "isDragging (initial\<lparr>isDragging := True, position := 161, dxCorrection := - 41\<rparr>)
   \<and> dxCorrection (initial\<lparr>isDragging := True, position := 161, dxCorrection := - 41\<rparr>) \<noteq> 0
   \<and> selected (initial\<lparr>isDragging := True, position := 161, dxCorrection := - 41\<rparr>)
       (didPanEnd (default_config 1000) id
          (initial\<lparr>isDragging := True, position := 161, dxCorrection := - 41\<rparr>)
          \<lparr>distanceX = - 180, velocityX = 0, pointerX = 160\<rparr>) = Some CloseAnimation
   \<and> corrected_decision (default_config 1000) id
       (initial\<lparr>isDragging := True, position := 161, dxCorrection := - 41\<rparr>)
       \<lparr>distanceX = - 180, velocityX = 0, pointerX = 160\<rparr> = OpenAnimation
   \<and> \<not> embed (default_config 1000)
   \<and> (\<exists>e'. selected (initial\<lparr>isDragging := True, position := 161, dxCorrection := - 41\<rparr>)
         (didPanEnd (default_config 1000) id
            (initial\<lparr>isDragging := True, position := 161, dxCorrection := - 41\<rparr>) e')
       \<noteq> Some (corrected_decision (default_config 1000) id
            (initial\<lparr>isDragging := True, position := 161, dxCorrection := - 41\<rparr>) e'))"
proof -
  let ?cfg = "default_config 1000"
  let ?s = "initial\<lparr>isDragging := True, position := 161, dxCorrection := - 41\<rparr>"
  let ?e = "\<lparr>distanceX = - 180, velocityX = 0, pointerX = 160\<rparr>"
  have h1: "isDragging ?s"
    by simp
  have h2: "dxCorrection ?s \<noteq> 0"
    by simp
  have w: "menuWidth ?cfg = 300" "triggerVelocity ?cfg = 0.3"
    by (simp_all add: menuWidth_def default_config_def)
  have dx: "gesture_dx ?cfg id ?e = - 180" "gesture_vx ?cfg id ?e = 0"
    by (simp_all add: gesture_dx_def gesture_vx_def directionalize_def normalized_def isLeft_def
        default_config_def)
  have cd: "corrected_decision ?cfg id ?s ?e = OpenAnimation"
    by (simp add: corrected_decision_def dx w)
  have h3: "\<not> embed ?cfg"
    by (simp add: default_config_def)
  show ?thesis
    using didPanEnd_ignores_dxCorrection [OF h1 h2, of ?cfg id ?e] h1 h2 h3 cd
    by (simp add: dx w)
qed

end
